theory Spec2Isabelle
  imports Main "HOL-Library.AList"
begin

section \<open>Python values shared by the scripts\<close>

text \<open>
  The value \<open>json.load\<close> returns: \<open>None\<close>, a bool, an int, a float, a str, a list or a
  dict. A dict is an association list in insertion order; \<open>d.get(k)\<close> and \<open>k in d\<close>
  read it through \<open>map_of\<close>, \<open>d[k] = v\<close> writes it through \<open>AList.update\<close>, which
  keeps the position of a key that is already there and appends a new one, as a Python
  dict does. A finite float is kept as mantissa and exponent, and \<open>NaN\<close> and the two
  infinities, which \<open>json.load\<close> reads and \<open>json.dumps\<close> writes, have constructors of
  their own; no script computes with a float.
\<close>

datatype json =
    JNull
  | JBool bool
  | JInt int
  | JFloat int int
  | JNaN
  | JInfinity bool
  | JStr string
  | JArr "json list"
  | JObj "(string \<times> json) list"

type_synonym pydict = "(string \<times> json) list"

datatype py_error =
    KeyError
  | TypeError
  | AttributeError
  | ValueError
  | OverflowError
  | IntegrityError
  | DataError
  | ProgrammingError

text \<open>Iterating a value, as \<open>for x in v\<close> and \<open>list.extend(v)\<close> do: a list gives its
  elements, a dict its keys, a str its characters; anything else raises \<open>TypeError\<close>.\<close>

fun py_iter :: "json \<Rightarrow> py_error + json list" where
  "py_iter (JArr xs) = Inr xs"
| "py_iter (JObj kvs) = Inr (map (\<lambda>kv. JStr (fst kv)) kvs)"
| "py_iter (JStr s) = Inr (map (\<lambda>c. JStr [c]) s)"
| "py_iter JNull = Inl TypeError"
| "py_iter (JBool b) = Inl TypeError"
| "py_iter (JInt n) = Inl TypeError"
| "py_iter (JFloat m e) = Inl TypeError"
| "py_iter JNaN = Inl TypeError"
| "py_iter (JInfinity b) = Inl TypeError"

text \<open>A \<open>for\<close> loop whose body may raise: the state is threaded through the items in
  order and the first exception ends the loop.\<close>

fun for_each :: "('a \<Rightarrow> 's \<Rightarrow> 'e + 's) \<Rightarrow> 'a list \<Rightarrow> 's \<Rightarrow> 'e + 's" where
  "for_each f [] s = Inr s"
| "for_each f (x # xs) s = (case f x s of Inl e \<Rightarrow> Inl e | Inr s' \<Rightarrow> for_each f xs s')"

text \<open>\<open>s.split(c)\<close> for a one-character separator: the parts between the separators,
  in order; the empty string gives one part, the empty string.\<close>

fun split_from :: "char \<Rightarrow> string \<Rightarrow> string \<Rightarrow> string list" where
  "split_from c cur [] = [cur]"
| "split_from c cur (x # xs) =
     (if x = c then cur # split_from c [] xs else split_from c (cur @ [x]) xs)"

definition split_on :: "char \<Rightarrow> string \<Rightarrow> string list" where
  "split_on c s = split_from c [] s"

text \<open>\<open>str(n)\<close> for an int, and the format \<open>{n:02d}\<close>.\<close>

definition digit_char :: "nat \<Rightarrow> char" where
  "digit_char d = ''0123456789'' ! d"

function str_nat :: "nat \<Rightarrow> string" where
  "str_nat n = (if n < 10 then [digit_char n] else str_nat (n div 10) @ [digit_char (n mod 10)])"
  by pat_completeness auto
termination
  by (relation "measure id") auto

declare str_nat.simps [simp del]

definition str_int :: "int \<Rightarrow> string" where
  "str_int i = (if i < 0 then CHR ''-'' # str_nat (nat (- i)) else str_nat (nat i))"

definition zero_fill :: "nat \<Rightarrow> string \<Rightarrow> string" where
  "zero_fill w s = replicate (w - length s) CHR ''0'' @ s"

definition fmt_02d :: "int \<Rightarrow> string" where
  "fmt_02d i = (if i < 0 then str_int i else zero_fill 2 (str_int i))"

section \<open>NTSB\_scraping/merge\_extracted\_json.py\<close>

text \<open>
  The state of the merge loop: the list \<open>all_cases\<close> and the counter \<open>total_records\<close>.
  A file is what \<open>json.load\<close> gave for it, or \<open>None\<close> when opening or decoding it raised;
  every exception inside the \<open>try\<close> is caught and the loop goes on to the next file.
\<close>

record merge_state =
  all_cases :: "json list"
  total_records :: nat

definition merge_init :: merge_state where
  "merge_init = \<lparr>all_cases = [], total_records = 0\<rparr>"

definition extend_cases :: "merge_state \<Rightarrow> json \<Rightarrow> merge_state" where
  "extend_cases st v =
     (case py_iter v of
        Inl e \<Rightarrow> st
      | Inr xs \<Rightarrow> \<lparr>all_cases = all_cases st @ xs, total_records = total_records st + length xs\<rparr>)"

fun merge_file :: "merge_state \<Rightarrow> json option \<Rightarrow> merge_state" where
  "merge_file st None = st"
| "merge_file st (Some (JArr xs)) =
     \<lparr>all_cases = all_cases st @ xs, total_records = total_records st + length xs\<rparr>"
| "merge_file st (Some (JObj kvs)) =
     (case map_of kvs ''cases'' of
        Some v \<Rightarrow> extend_cases st v
      | None \<Rightarrow> \<lparr>all_cases = all_cases st @ [JObj kvs], total_records = total_records st + 1\<rparr>)"
| "merge_file st (Some v) = st"

definition merge_files :: "json option list \<Rightarrow> merge_state" where
  "merge_files json_files = foldl merge_file merge_init json_files"

section \<open>TL/load\_staging.py\<close>

subsection \<open>The statement and the store\<close>













subsection \<open>The loaders\<close>

text \<open>\<open>record.get(k)\<close>: only a dict has \<open>get\<close>; a missing key gives \<open>None\<close>.\<close>

fun py_get :: "json \<Rightarrow> string \<Rightarrow> py_error + json" where
  "py_get (JObj kvs) k = (case map_of kvs k of None \<Rightarrow> Inr JNull | Some v \<Rightarrow> Inr v)"
| "py_get v k = Inl AttributeError"


text \<open>\<open>record.get("url").split("/")[-1]\<close>: only a str has \<open>split\<close>.\<close>

fun source1_id :: "json \<Rightarrow> py_error + json" where
  "source1_id record =
     (case py_get record ''url'' of
        Inl e \<Rightarrow> Inl e
      | Inr (JStr u) \<Rightarrow> Inr (JStr (last (split_on CHR ''/'' u)))
      | Inr v \<Rightarrow> Inl AttributeError)"










section \<open>NTSB\_scraping/script.py\<close>

subsection \<open>Dates\<close>

text \<open>
  A \<open>datetime\<close> at midnight is its (year, month, day). The constructor of CPython first
  converts each argument to a C \<open>int\<close> of 32 bits and raises \<open>OverflowError\<close> for one
  that does not fit; then it raises \<open>ValueError\<close> outside \<open>MINYEAR = 1 .. MAXYEAR = 9999\<close>,
  for a month outside 1..12 and for a day the month does not have.
\<close>

type_synonym date = "int \<times> int \<times> int"

definition is_leap :: "int \<Rightarrow> bool" where
  "is_leap y = (y mod 4 = 0 \<and> (y mod 100 \<noteq> 0 \<or> y mod 400 = 0))"

definition days_in_month_table :: "int list" where
  "days_in_month_table = [0, 31, 28, 31, 30, 31, 30, 31, 31, 30, 31, 30, 31]"

definition days_in_month :: "int \<Rightarrow> int \<Rightarrow> int" where
  "days_in_month y m = (if m = 2 \<and> is_leap y then 29 else days_in_month_table ! nat m)"

definition c_int :: "int \<Rightarrow> bool" where
  "c_int n = (- 2147483648 \<le> n \<and> n \<le> 2147483647)"

definition datetime :: "int \<Rightarrow> int \<Rightarrow> int \<Rightarrow> py_error + date" where
  "datetime y m d =
     (if \<not> c_int y \<or> \<not> c_int m \<or> \<not> c_int d then Inl OverflowError
      else if y < 1 \<or> 9999 < y then Inl ValueError
      else if m < 1 \<or> 12 < m then Inl ValueError
      else if d < 1 \<or> days_in_month y m < d then Inl ValueError
      else Inr (y, m, d))"

text \<open>
  \<open>dt - timedelta(days=1)\<close>. CPython builds the date with the day decreased by one and
  normalises it: a day that is still at least 1 stays; day 0 becomes the last day of the
  month before, or 31 December of the year before when the month was January. A result
  before year 1 raises \<open>OverflowError\<close>.
\<close>

definition minus_one_day :: "date \<Rightarrow> py_error + date" where
  "minus_one_day dt =
     (case dt of (y, m, d) \<Rightarrow>
        if 1 \<le> d - 1 then Inr (y, m, d - 1)
        else if 0 < m - 1 then Inr (y, m - 1, days_in_month y (m - 1))
        else if y - 1 < 1 then Inl OverflowError
        else Inr (y - 1, 12, 31))"

text \<open>
  \<open>strftime("%Y-%m-%d")\<close>. \<open>%m\<close> and \<open>%d\<close> are two digits. \<open>%Y\<close> is the platform's: the
  C library of some platforms fills a year below 1000 with zeros to four digits and that
  of others does not, so the choice is the parameter \<open>zf\<close>.
\<close>

definition strftime_ymd :: "bool \<Rightarrow> date \<Rightarrow> string" where
  "strftime_ymd zf dt =
     (case dt of (y, m, d) \<Rightarrow>
        (if zf then zero_fill 4 (str_nat (nat y)) else str_nat (nat y))
        @ ''-'' @ zero_fill 2 (str_nat (nat m)) @ ''-'' @ zero_fill 2 (str_nat (nat d)))"

definition get_month_date_range :: "bool \<Rightarrow> int \<Rightarrow> int \<Rightarrow> py_error + string \<times> string" where
  "get_month_date_range zf year month =
     (case datetime year month 1 of
        Inl e \<Rightarrow> Inl e
      | Inr first_day \<Rightarrow>
          (case (if month = 12 then datetime year 12 31
                 else (case datetime year (month + 1) 1 of
                         Inl e \<Rightarrow> Inl e
                       | Inr nxt \<Rightarrow> minus_one_day nxt)) of
             Inl e \<Rightarrow> Inl e
           | Inr last_day \<Rightarrow> Inr (strftime_ymd zf first_day, strftime_ymd zf last_day)))"

subsection \<open>One month\<close>

text \<open>
  What varies in the request of a month: the \<open>Referer\<close> header and the two dates of the
  payload. The rest of the headers and of the payload is constant.
\<close>

record export_request =
  referer :: string
  date_from :: string
  date_to :: string

definition create_payload :: "bool \<Rightarrow> int \<Rightarrow> int \<Rightarrow> py_error + string \<times> string" where
  "create_payload zf year month = get_month_date_range zf year month"

text \<open>
  \<open>requests.post\<close> either raises a \<open>RequestException\<close> (connection error, timeout) or
  returns a response with a status and a body; \<open>raise_for_status\<close> raises \<open>HTTPError\<close>, a
  \<open>RequestException\<close>, for a status from 400 to 599. The server is a function of the number
  of requests made so far and of the request, so that a request that failed once may
  succeed when it is made again.
\<close>

datatype post_outcome = RequestException | Response nat string

type_synonym server = "nat \<Rightarrow> export_request \<Rightarrow> post_outcome"

text \<open>What \<open>print\<close> writes, one event per line or part of a line.\<close>

datatype log_event =
    AlreadyExists string
  | Downloading string
  | Success nat
  | Failed

text \<open>
  The world of the driver: the files of the output directory by name, the requests sent,
  in order, and the output. Writing a file is taken to succeed; \<open>time.sleep\<close> has no
  effect on any of the three.
\<close>

record world =
  files :: "string \<Rightarrow> string option"
  requests :: "export_request list"
  printed :: "log_event list"

definition month_filename :: "int \<Rightarrow> int \<Rightarrow> string" where
  "month_filename year month = ''ntsb_'' @ str_int year @ ''_'' @ fmt_02d month @ ''.zip''"

definition month_referer :: "int \<Rightarrow> int \<Rightarrow> string" where
  "month_referer year month =
     ''https://data.ntsb.gov/carol-main-public/query-builder?month='' @ str_int month
       @ ''&year='' @ str_int year"

definition raise_for_status :: "nat \<Rightarrow> bool" where
  "raise_for_status status = (400 \<le> status \<and> status < 600)"

definition download_month :: "bool \<Rightarrow> server \<Rightarrow> int \<Rightarrow> int \<Rightarrow> world \<Rightarrow> py_error + bool \<times> world" where
  "download_month zf srv year month w =
     (let filename = month_filename year month in
      if files w filename \<noteq> None then
        Inr (True, w\<lparr>printed := printed w @ [AlreadyExists filename]\<rparr>)
      else
        (case create_payload zf year month of
           Inl e \<Rightarrow> Inl e
         | Inr (first_day, last_day) \<Rightarrow>
             (let req = \<lparr>referer = month_referer year month,
                         date_from = first_day, date_to = last_day\<rparr>;
                  w1 = w\<lparr>requests := requests w @ [req],
                         printed := printed w @ [Downloading filename]\<rparr>
              in case srv (length (requests w)) req of
                   RequestException \<Rightarrow> Inr (False, w1\<lparr>printed := printed w1 @ [Failed]\<rparr>)
                 | Response status content \<Rightarrow>
                     if raise_for_status status then
                       Inr (False, w1\<lparr>printed := printed w1 @ [Failed]\<rparr>)
                     else
                       Inr (True, w1\<lparr>files := (files w1)(filename \<mapsto> content),
                                      printed := printed w1 @ [Success (length content)]\<rparr>))))"

subsection \<open>The year and month loops\<close>

text \<open>The counters \<open>total\<close> (here \<open>tot\<close>), \<open>successful\<close>, \<open>failed\<close> and the world.\<close>

type_synonym run_state = "(nat \<times> nat \<times> nat) \<times> world"

definition month_step :: "bool \<Rightarrow> server \<Rightarrow> int \<Rightarrow> int \<Rightarrow> run_state \<Rightarrow> py_error + run_state" where
  "month_step zf srv year month st =
     (case st of ((tot, successful, failed), w) \<Rightarrow>
        (case download_month zf srv year month w of
           Inl e \<Rightarrow> Inl e
         | Inr (ok, w') \<Rightarrow>
             if ok then Inr ((tot + 1, successful + 1, failed), w')
             else Inr ((tot + 1, successful, failed + 1), w')))"

definition year_step :: "bool \<Rightarrow> server \<Rightarrow> int \<times> int \<Rightarrow> int \<Rightarrow> run_state \<Rightarrow> py_error + run_state" where
  "year_step zf srv now year st =
     (let last_month = (if year = fst now then snd now else 12)
      in for_each (month_step zf srv year) [1..last_month] st)"

text \<open>\<open>now\<close> is the year and the month of \<open>datetime.now()\<close>.\<close>

definition download_all :: "bool \<Rightarrow> server \<Rightarrow> int \<times> int \<Rightarrow> int \<Rightarrow> int \<Rightarrow> world \<Rightarrow> py_error + run_state" where
  "download_all zf srv now start_year end_year w =
     for_each (year_step zf srv now) [start_year..end_year] ((0, 0, 0), w)"


text \<open>The month lengths of the calendar, and the form \<open>YYYY-MM-DD\<close>, written out.\<close>

definition calendar_month_length :: "int \<Rightarrow> int \<Rightarrow> int" where
  "calendar_month_length y m =
     (if m = 2 then
        (if y mod 4 = 0 \<and> (y mod 100 \<noteq> 0 \<or> y mod 400 = 0) then 29 else 28)
      else if m = 4 \<or> m = 6 \<or> m = 9 \<or> m = 11 then 30
      else 31)"

definition two_digits :: "int \<Rightarrow> string" where
  "two_digits n = [digit_char (nat n div 10), digit_char (nat n mod 10)]"

definition four_digits :: "int \<Rightarrow> string" where
  "four_digits n =
     [digit_char (nat n div 1000), digit_char (nat n div 100 mod 10),
      digit_char (nat n div 10 mod 10), digit_char (nat n mod 10)]"

definition iso_date :: "int \<Rightarrow> int \<Rightarrow> int \<Rightarrow> string" where
  "iso_date y m d = four_digits y @ ''-'' @ two_digits m @ ''-'' @ two_digits d"

text \<open>The windows of a run: the years in order, each with its months in order.\<close>

definition run_windows :: "int \<times> int \<Rightarrow> int \<Rightarrow> int \<Rightarrow> (int \<times> int) list" where
  "run_windows now start_year end_year =
     concat (map (\<lambda>y. map (\<lambda>m. (y, m)) [1..(if y = fst now then snd now else 12)])
                 [start_year..end_year])"

text \<open>A request fails when \<open>requests.post\<close> or \<open>raise_for_status\<close> raises.\<close>

definition request_fails :: "post_outcome \<Rightarrow> bool" where
  "request_fails r =
     (case r of RequestException \<Rightarrow> True | Response status content \<Rightarrow> raise_for_status status)"

text \<open>The request of a window, and a world and two servers to run the driver on.\<close>

definition month_request :: "bool \<Rightarrow> int \<Rightarrow> int \<Rightarrow> export_request" where
  "month_request zf y m =
     \<lparr>referer = month_referer y m,
      date_from = strftime_ymd zf (y, m, 1),
      date_to = strftime_ymd zf (y, m, calendar_month_length y m)\<rparr>"

definition empty_world :: world where
  "empty_world = \<lparr>files = (\<lambda>f. None), requests = [], printed = []\<rparr>"

definition failing_server :: server where
  "failing_server n r = RequestException"

definition flaky_server :: server where
  "flaky_server n r = (if n = 0 then Response 503 ''busy'' else Response 200 ''PK'')"

section \<open>ASN\_scraping/scraper.py\<close>

subsection \<open>Strings\<close>

text \<open>
  A \<open>char\<close> is a code point below 256. \<open>str.strip()\<close> removes the white space of that
  range at both ends, \<open>str.lower()\<close> maps its capital letters, \<open>sub in s\<close> is the search
  for a contiguous part, and \<open>s.replace(c, '''')\<close> removes every \<open>c\<close>.
\<close>

definition is_space :: "char \<Rightarrow> bool" where
  "is_space c = (c \<in> set [CHR 0x09, CHR 0x0A, CHR 0x0B, CHR 0x0C, CHR 0x0D, CHR 0x1C, CHR 0x1D,
                           CHR 0x1E, CHR 0x1F, CHR 0x20, CHR 0x85, CHR 0xA0])"

definition py_strip :: "string \<Rightarrow> string" where
  "py_strip s = rev (dropWhile is_space (rev (dropWhile is_space s)))"

definition upper_chars :: "char list" where
  "upper_chars = ''ABCDEFGHIJKLMNOPQRSTUVWXYZ'' @
     [CHR 0xC0, CHR 0xC1, CHR 0xC2, CHR 0xC3, CHR 0xC4, CHR 0xC5, CHR 0xC6, CHR 0xC7,
      CHR 0xC8, CHR 0xC9, CHR 0xCA, CHR 0xCB, CHR 0xCC, CHR 0xCD, CHR 0xCE, CHR 0xCF,
      CHR 0xD0, CHR 0xD1, CHR 0xD2, CHR 0xD3, CHR 0xD4, CHR 0xD5, CHR 0xD6,
      CHR 0xD8, CHR 0xD9, CHR 0xDA, CHR 0xDB, CHR 0xDC, CHR 0xDD, CHR 0xDE]"

definition lower_chars :: "char list" where
  "lower_chars = ''abcdefghijklmnopqrstuvwxyz'' @
     [CHR 0xE0, CHR 0xE1, CHR 0xE2, CHR 0xE3, CHR 0xE4, CHR 0xE5, CHR 0xE6, CHR 0xE7,
      CHR 0xE8, CHR 0xE9, CHR 0xEA, CHR 0xEB, CHR 0xEC, CHR 0xED, CHR 0xEE, CHR 0xEF,
      CHR 0xF0, CHR 0xF1, CHR 0xF2, CHR 0xF3, CHR 0xF4, CHR 0xF5, CHR 0xF6,
      CHR 0xF8, CHR 0xF9, CHR 0xFA, CHR 0xFB, CHR 0xFC, CHR 0xFD, CHR 0xFE]"

definition lower_char :: "char \<Rightarrow> char" where
  "lower_char c = (case map_of (zip upper_chars lower_chars) c of None \<Rightarrow> c | Some l \<Rightarrow> l)"

definition py_lower :: "string \<Rightarrow> string" where
  "py_lower s = map lower_char s"

definition py_remove :: "char \<Rightarrow> string \<Rightarrow> string" where
  "py_remove c s = filter (\<lambda>x. x \<noteq> c) s"

fun starts_with :: "string \<Rightarrow> string \<Rightarrow> bool" where
  "starts_with [] s = True"
| "starts_with (x # xs) [] = False"
| "starts_with (x # xs) (y # ys) = (x = y \<and> starts_with xs ys)"

fun py_in :: "string \<Rightarrow> string \<Rightarrow> bool" where
  "py_in sub [] = (sub = [])"
| "py_in sub (c # cs) = (starts_with sub (c # cs) \<or> py_in sub cs)"

text \<open>The words between white space, as the parser cuts a \<open>class\<close> attribute.\<close>

fun words_from :: "string \<Rightarrow> string \<Rightarrow> string list" where
  "words_from cur [] = (if cur = [] then [] else [cur])"
| "words_from cur (c # cs) =
     (if is_space c then (if cur = [] then words_from [] cs else cur # words_from [] cs)
      else words_from (cur @ [c]) cs)"

subsection \<open>The parsed page\<close>

text \<open>
  What \<open>BeautifulSoup(html, 'html.parser')\<close> builds: a tree of tags, each with a name, its
  attributes and its contents, and of strings. The soup itself is the tag at the root.
  The library is not in the repository; of it the model has the tree and the searches
  the scraper calls on it, and takes the parser as a parameter.
\<close>

datatype node =
    NavigableString string
  | Tag string "(string \<times> string) list" "node list"

fun contents :: "node \<Rightarrow> node list" where
  "contents (NavigableString s) = []"
| "contents (Tag n a cs) = cs"

text \<open>\<open>tag.descendants\<close>: everything below the tag, in document order.\<close>

fun descendants :: "node \<Rightarrow> node list" where
  "descendants (NavigableString s) = []"
| "descendants (Tag n a cs) = concat (map (\<lambda>c. c # descendants c) cs)"

text \<open>\<open>tag.text\<close>: the strings below the tag, joined.\<close>

fun text_of :: "node \<Rightarrow> string" where
  "text_of (NavigableString s) = s"
| "text_of (Tag n a cs) = concat (map text_of cs)"

text \<open>\<open>tag.string\<close>: the string of a tag with one child, through tags with one child.\<close>

fun string_of :: "node \<Rightarrow> string option" where
  "string_of (NavigableString s) = Some s"
| "string_of (Tag n a []) = None"
| "string_of (Tag n a [c]) = string_of c"
| "string_of (Tag n a (c # d # cs)) = None"

fun is_tag :: "string \<Rightarrow> node \<Rightarrow> bool" where
  "is_tag name (NavigableString s) = False"
| "is_tag name (Tag n a cs) = (n = name)"

fun attr :: "node \<Rightarrow> string \<Rightarrow> string option" where
  "attr (NavigableString s) k = None"
| "attr (Tag n a cs) k = map_of a k"

text \<open>\<open>class_=c\<close>: one of the classes of the tag is \<open>c\<close>.\<close>

definition has_class :: "string \<Rightarrow> node \<Rightarrow> bool" where
  "has_class c t = (case attr t ''class'' of None \<Rightarrow> False | Some v \<Rightarrow> c \<in> set (words_from [] v))"

text \<open>\<open>href=re.compile(p)\<close> for a pattern without special characters: the tag has the
  attribute and \<open>p\<close> occurs in it. \<open>string=re.compile(p)\<close>: the same on \<open>tag.string\<close>.\<close>

definition href_has :: "string \<Rightarrow> node \<Rightarrow> bool" where
  "href_has p t = (case attr t ''href'' of None \<Rightarrow> False | Some v \<Rightarrow> py_in p v)"

definition string_has :: "string \<Rightarrow> node \<Rightarrow> bool" where
  "string_has p t = (case string_of t of None \<Rightarrow> False | Some v \<Rightarrow> py_in p v)"

text \<open>\<open>tag.find_all(...)\<close> and \<open>tag.find(...)\<close> for a test on tags.\<close>

definition find_all :: "(node \<Rightarrow> bool) \<Rightarrow> node \<Rightarrow> node list" where
  "find_all p t = filter p (descendants t)"

definition find_first :: "(node \<Rightarrow> bool) \<Rightarrow> node \<Rightarrow> node option" where
  "find_first p t = List.find p (descendants t)"

text \<open>
  \<open>tag.find(...)\<close> together with the siblings that follow what it found, which
  \<open>find_next_sibling\<close> searches: the first match in document order among the given
  siblings and what is below them.
\<close>

fun find_with_siblings :: "(node \<Rightarrow> bool) \<Rightarrow> node list \<Rightarrow> (node \<times> node list) option" where
  "find_with_siblings p [] = None"
| "find_with_siblings p (NavigableString s # rest) =
     (if p (NavigableString s) then Some (NavigableString s, rest)
      else find_with_siblings p rest)"
| "find_with_siblings p (Tag n a cs # rest) =
     (if p (Tag n a cs) then Some (Tag n a cs, rest)
      else (case find_with_siblings p cs of
              Some r \<Rightarrow> Some r
            | None \<Rightarrow> find_with_siblings p rest))"

text \<open>
  The narrative and the list of sources are found with \<open>find_next\<close> and
  \<open>find_next_sibling\<close> called with \<open>string=True\<close> or with no argument, whose results
  depend on the release of the library. Both blocks of \<open>_parse_accident_detail\<close> only
  assign \<open>narrative\<close> and \<open>sources\<close>; the value each assigns, if any, is a parameter,
  and both blocks are taken to return.
\<close>

record bs4 =
  soup_of :: "string \<Rightarrow> node"
  narrative_of :: "node \<Rightarrow> string option"
  sources_of :: "node \<Rightarrow> string list option"

subsection \<open>The scraper\<close>




text \<open>\<open>_extract_country\<close>.\<close>

definition country_link :: "node \<Rightarrow> node option" where
  "country_link soup =
     (case find_with_siblings
             (\<lambda>t. is_tag ''td'' t \<and> has_class ''caption'' t \<and> string_has ''Location:'' t)
             (contents soup) of
        None \<Rightarrow> None
      | Some (location_row, siblings) \<Rightarrow>
          (case List.find (is_tag ''td'') siblings of
             None \<Rightarrow> None
           | Some location_cell \<Rightarrow>
               find_first (\<lambda>t. is_tag ''a'' t \<and> href_has ''/asndb/country/'' t) location_cell))"

definition extract_country :: "string \<Rightarrow> node \<Rightarrow> string" where
  "extract_country location_text soup =
     (case country_link soup of
        Some link \<Rightarrow> py_strip (text_of link)
      | None \<Rightarrow>
          if CHR ''-'' \<in> set location_text then
            (let parts = split_on CHR ''-'' location_text in
             if 2 \<le> length parts then py_strip (last parts) else py_strip location_text)
          else py_strip location_text)"

text \<open>The body of the loop over the rows of the table.\<close>

definition or_none :: "string \<Rightarrow> json" where
  "or_none v = (if v = [] then JNull else JStr v)"

definition table_row :: "node \<Rightarrow> node \<Rightarrow> pydict \<Rightarrow> pydict" where
  "table_row soup row accident_data =
     (let cells = find_all (is_tag ''td'') row in
      if 2 \<le> length cells then
        (let caption = py_lower (py_remove CHR '':'' (py_strip (text_of (cells ! 0))));
             v = py_strip (text_of (cells ! 1))
         in
           if py_in ''date'' caption then AList.update ''date'' (JStr v) accident_data
           else if py_in ''time'' caption then AList.update ''time'' (or_none v) accident_data
           else if py_in ''type'' caption \<and> \<not> py_in ''aircraft'' caption then
             AList.update ''type''
               (case find_first (is_tag ''a'') (cells ! 1) of
                  Some type_link \<Rightarrow> JStr (py_strip (text_of type_link))
                | None \<Rightarrow> JStr v)
               accident_data
           else if py_in ''owner/operator'' caption then
             AList.update ''owner_operator'' (JStr v) accident_data
           else if py_in ''registration'' caption then
             AList.update ''registration'' (JStr v) accident_data
           else if py_in ''msn'' caption then AList.update ''msn'' (JStr v) accident_data
           else if py_in ''year of manufacture'' caption then
             AList.update ''year_of_manufacture'' (JStr v) accident_data
           else if py_in ''fatalities'' caption \<and> \<not> py_in ''other'' caption then
             AList.update ''fatalities'' (JStr v) accident_data
           else if py_in ''aircraft damage'' caption then
             AList.update ''aircraft_damage'' (JStr v) accident_data
           else if py_in ''location'' caption then
             AList.update ''location'' (JStr (extract_country v soup)) accident_data
           else if py_in ''phase'' caption then AList.update ''phase'' (JStr v) accident_data
           else if py_in ''nature'' caption then AList.update ''nature'' (JStr v) accident_data
           else if py_in ''departure airport'' caption then
             AList.update ''departure_airport'' (or_none v) accident_data
           else if py_in ''destination airport'' caption then
             AList.update ''destination_airport'' (or_none v) accident_data
           else if py_in ''confidence rating'' caption then
             AList.update ''confidence_rating'' (JStr v) accident_data
           else accident_data)
      else accident_data)"

text \<open>\<open>_parse_accident_detail\<close>: \<open>None\<close> when the page has no table.\<close>

definition parse_accident_detail :: "bs4 \<Rightarrow> string \<Rightarrow> string \<Rightarrow> pydict option" where
  "parse_accident_detail lib html url =
     (let soup = soup_of lib html in
      case find_first (is_tag ''table'') soup of
        None \<Rightarrow> None
      | Some table \<Rightarrow>
          (let d1 = foldl (\<lambda>acc row. table_row soup row acc) [(''url'', JStr url)]
                      (find_all (is_tag ''tr'') table);
               d2 = (case narrative_of lib soup of
                       None \<Rightarrow> d1
                     | Some t \<Rightarrow> AList.update ''narrative'' (JStr t) d1);
               d3 = (case sources_of lib soup of
                       None \<Rightarrow> d2
                     | Some srcs \<Rightarrow> AList.update ''sources'' (JArr (map JStr srcs)) d2)
           in Some d3))"








text \<open>A detail page with a country link in its location row, and one without.\<close>

definition location_page :: node where
  "location_page =
     Tag ''[document]'' []
       [Tag ''table'' []
          [Tag ''tr'' []
             [Tag ''td'' [(''class'', ''caption'')] [NavigableString ''Location:''],
              NavigableString '' '',
              Tag ''td'' [(''class'', ''desc'')]
                [NavigableString ''Springfield, IL - '',
                 Tag ''a'' [(''href'', ''/asndb/country/N'')]
                   [NavigableString '' United States of America '']]]]]"

definition plain_page :: node where
  "plain_page =
     Tag ''[document]'' []
       [Tag ''table'' []
          [Tag ''tr'' []
             [Tag ''td'' [(''class'', ''caption'')] [NavigableString ''Location:''],
              Tag ''td'' [(''class'', ''desc'')] [NavigableString ''Near CityX - CountryY'']]]]"

subsection \<open>The table of labels, as the specification words it\<close>

text \<open>
  The known labels in their order of declaration, each with the field it fills; the
  first rule that the caption of a row meets decides the field of the row.
\<close>

definition label_rules :: "(string \<times> (string \<Rightarrow> bool)) list" where
  "label_rules =
     [(''date'', \<lambda>c. py_in ''date'' c),
      (''time'', \<lambda>c. py_in ''time'' c),
      (''type'', \<lambda>c. py_in ''type'' c \<and> \<not> py_in ''aircraft'' c),
      (''owner_operator'', \<lambda>c. py_in ''owner/operator'' c),
      (''registration'', \<lambda>c. py_in ''registration'' c),
      (''msn'', \<lambda>c. py_in ''msn'' c),
      (''year_of_manufacture'', \<lambda>c. py_in ''year of manufacture'' c),
      (''fatalities'', \<lambda>c. py_in ''fatalities'' c \<and> \<not> py_in ''other'' c),
      (''aircraft_damage'', \<lambda>c. py_in ''aircraft damage'' c),
      (''location'', \<lambda>c. py_in ''location'' c),
      (''phase'', \<lambda>c. py_in ''phase'' c),
      (''nature'', \<lambda>c. py_in ''nature'' c),
      (''departure_airport'', \<lambda>c. py_in ''departure airport'' c),
      (''destination_airport'', \<lambda>c. py_in ''destination airport'' c),
      (''confidence_rating'', \<lambda>c. py_in ''confidence rating'' c)]"

definition table_fields :: "string list" where
  "table_fields = map fst label_rules"

definition known_field :: "string \<Rightarrow> string option" where
  "known_field caption = map_option fst (List.find (\<lambda>r. snd r caption) label_rules)"

text \<open>The cells of a row, its caption, and what a field takes from the value cell.\<close>

definition row_cells :: "node \<Rightarrow> node list" where
  "row_cells row = find_all (is_tag ''td'') row"

definition row_caption :: "node \<Rightarrow> string" where
  "row_caption row = py_lower (py_remove CHR '':'' (py_strip (text_of (row_cells row ! 0))))"

definition cell_value :: "node \<Rightarrow> string \<Rightarrow> node \<Rightarrow> json" where
  "cell_value soup k cell =
     (let v = py_strip (text_of cell) in
      if k = ''type'' then
        (case find_first (is_tag ''a'') cell of
           Some type_link \<Rightarrow> JStr (py_strip (text_of type_link))
         | None \<Rightarrow> JStr v)
      else if k = ''location'' then JStr (extract_country v soup)
      else if k = ''time'' \<or> k = ''departure_airport'' \<or> k = ''destination_airport'' then
        (if v = [] then JNull else JStr v)
      else JStr v)"

text \<open>The rows of the table that fill the field \<open>k\<close>, in document order.\<close>

definition fills_field :: "string \<Rightarrow> node \<Rightarrow> bool" where
  "fills_field k row = (2 \<le> length (row_cells row) \<and> known_field (row_caption row) = Some k)"

definition field_rows :: "node \<Rightarrow> string \<Rightarrow> node list" where
  "field_rows table k = filter (fills_field k) (find_all (is_tag ''tr'') table)"



text \<open>
  A site of one listing page for 2010 with two accidents, of which the second answers
  404, and the parser for its pages.
\<close>

definition listing_soup :: node where
  "listing_soup =
     Tag ''[document]'' []
       [Tag ''table'' []
          [Tag ''tr'' [(''class'', ''list'')]
             [Tag ''td'' [] [Tag ''a'' [(''href'', ''/wikibase/1'')] [NavigableString ''12 JAN 2010'']]],
           Tag ''tr'' [(''class'', ''list'')]
             [Tag ''td'' [] [Tag ''a'' [(''href'', ''/wikibase/2'')] [NavigableString ''13 JAN 2010'']]]]]"

definition detail_soup :: node where
  "detail_soup =
     Tag ''[document]'' []
       [Tag ''table'' []
          [Tag ''tr'' []
             [Tag ''td'' [(''class'', ''caption'')] [NavigableString ''Date:''],
              Tag ''td'' [(''class'', ''desc'')] [NavigableString '' 12 JAN 2010 '']],
           Tag ''tr'' []
             [Tag ''td'' [(''class'', ''caption'')] [NavigableString ''Time:''],
              Tag ''td'' [(''class'', ''desc'')] [NavigableString '' '']],
           Tag ''tr'' []
             [Tag ''td'' [(''class'', ''caption'')] [NavigableString ''Type:''],
              Tag ''td'' [(''class'', ''desc'')]
                [Tag ''a'' [(''href'', ''/asndb/type/C172'')] [NavigableString ''Cessna 172''],
                 NavigableString '' (C172)'']]]]"

definition demo_lib :: bs4 where
  "demo_lib =
     \<lparr>soup_of = (\<lambda>html. if html = ''LISTING'' then listing_soup else detail_soup),
      narrative_of = (\<lambda>soup. None),
      sources_of = (\<lambda>soup. None)\<rparr>"



section \<open>Properties of the merge\<close>

text \<open>
  C9. An array file contributes one record per element; an object file contributes the
  elements of its \<open>cases\<close> field when it has one and itself otherwise; so a list of three
  records and an object whose \<open>cases\<close> holds five give eight records, in either order.
\<close>

theorem merge_record_shapes:
  "all_cases (merge_files [Some (JArr xs)]) = xs
   \<and> (map_of kvs ''cases'' = Some (JArr ys) \<longrightarrow>
        all_cases (merge_files [Some (JObj kvs)]) = ys)
   \<and> (map_of kvs ''cases'' = None \<longrightarrow>
        all_cases (merge_files [Some (JObj kvs)]) = [JObj kvs])
   \<and> (length xs = 3 \<and> map_of kvs ''cases'' = Some (JArr ys) \<and> length ys = 5 \<longrightarrow>
        all_cases (merge_files [Some (JArr xs), Some (JObj kvs)]) = xs @ ys
        \<and> length (all_cases (merge_files [Some (JArr xs), Some (JObj kvs)])) = 8
        \<and> total_records (merge_files [Some (JArr xs), Some (JObj kvs)]) = 8
        \<and> length (all_cases (merge_files [Some (JObj kvs), Some (JArr xs)])) = 8)"
  by (simp add: merge_files_def merge_init_def extend_cases_def)

text \<open>C9 at a list of three records and an object whose \<open>cases\<close> holds five.\<close>

theorem merge_record_shapes_witness:
  "all_cases (merge_files
      [Some (JArr [JInt 1, JInt 2, JInt 3]),
       Some (JObj [(''meta'', JNull),
                   (''cases'', JArr [JInt 4, JInt 5, JInt 6, JInt 7, JInt 8])])])
     = [JInt 1, JInt 2, JInt 3, JInt 4, JInt 5, JInt 6, JInt 7, JInt 8]
   \<and> all_cases (merge_files
        [Some (JObj [(''meta'', JNull),
                     (''cases'', JArr [JInt 4, JInt 5, JInt 6, JInt 7, JInt 8])])])
     = [JInt 4, JInt 5, JInt 6, JInt 7, JInt 8]
   \<and> all_cases (merge_files [Some (JObj [(''id'', JInt 4)])]) = [JObj [(''id'', JInt 4)]]"
  using merge_record_shapes [of "[JInt 1, JInt 2, JInt 3]"
          "[(''meta'', JNull), (''cases'', JArr [JInt 4, JInt 5, JInt 6, JInt 7, JInt 8])]"
          "[JInt 4, JInt 5, JInt 6, JInt 7, JInt 8]"]
        merge_record_shapes [of "[]" "[(''id'', JInt 4)]" "[]"]
  by simp

section \<open>Properties of the staging loader\<close>


lemma split_from_no_sep: "c \<notin> set s \<Longrightarrow> split_from c cur s = [cur @ s]"
  by (induction s arbitrary: cur) auto

lemma split_from_nonempty [simp]: "split_from c cur s \<noteq> []"
  by (induction s arbitrary: cur) auto

lemma split_from_last:
  "c \<notin> set seg \<Longrightarrow> last (split_from c cur (pre @ c # seg)) = seg"
  by (induction pre arbitrary: cur) (auto simp: split_from_no_sep)




subsection \<open>Building and running the statements\<close>























subsection \<open>The rows a loader builds\<close>









subsection \<open>What a load returns\<close>































section \<open>Properties of the NTSB driver\<close>

lemma digit_char_0 [simp]: "digit_char 0 = CHR ''0''"
  by (simp add: digit_char_def)

lemma str_nat_1: "n < 10 \<Longrightarrow> str_nat n = [digit_char n]"
  by (subst str_nat.simps) simp

lemma str_nat_2: "10 \<le> n \<Longrightarrow> n < 100 \<Longrightarrow> str_nat n = [digit_char (n div 10), digit_char (n mod 10)]"
  by (subst str_nat.simps) (simp add: str_nat_1)

lemma str_nat_3:
  "100 \<le> n \<Longrightarrow> n < 1000 \<Longrightarrow>
   str_nat n = [digit_char (n div 100), digit_char (n div 10 mod 10), digit_char (n mod 10)]"
  by (subst str_nat.simps) (simp add: str_nat_2 div_mult2_eq [symmetric])

lemma str_nat_4:
  "1000 \<le> n \<Longrightarrow> n < 10000 \<Longrightarrow>
   str_nat n = [digit_char (n div 1000), digit_char (n div 100 mod 10),
                digit_char (n div 10 mod 10), digit_char (n mod 10)]"
  by (subst str_nat.simps) (simp add: str_nat_3 div_mult2_eq [symmetric])

lemma replicate_small:
  "replicate (Suc 0) c = [c]" "replicate 2 c = [c, c]" "replicate 3 c = [c, c, c]"
  by (simp_all add: numeral_2_eq_2 numeral_3_eq_3)

lemma zero_fill_2: "n < 100 \<Longrightarrow> zero_fill 2 (str_nat n) = two_digits (int n)"
  by (cases "n < 10") (simp_all add: zero_fill_def str_nat_1 str_nat_2 two_digits_def replicate_small)

lemma zero_fill_4: "n < 10000 \<Longrightarrow> zero_fill 4 (str_nat n) = four_digits (int n)"
proof -
  assume n: "n < 10000"
  consider "n < 10" | "10 \<le> n" "n < 100" | "100 \<le> n" "n < 1000" | "1000 \<le> n"
    by linarith
  then show ?thesis
  proof cases
    case 1
    then show ?thesis by (simp add: zero_fill_def str_nat_1 four_digits_def replicate_small)
  next
    case 2
    then show ?thesis by (simp add: zero_fill_def str_nat_2 four_digits_def replicate_small)
  next
    case 3
    then show ?thesis by (simp add: zero_fill_def str_nat_3 four_digits_def replicate_small)
  next
    case 4
    with n show ?thesis by (simp add: zero_fill_def str_nat_4 four_digits_def)
  qed
qed

lemma strftime_iso:
  "0 \<le> y \<Longrightarrow> y \<le> 9999 \<Longrightarrow> zf \<or> 1000 \<le> y \<Longrightarrow> 0 \<le> m \<Longrightarrow> m < 100 \<Longrightarrow> 0 \<le> d \<Longrightarrow> d < 100 \<Longrightarrow>
   strftime_ymd zf (y, m, d) = iso_date y m d"
proof -
  assume a: "0 \<le> y" "y \<le> 9999" "zf \<or> 1000 \<le> y" "0 \<le> m" "m < 100" "0 \<le> d" "d < 100"
  have y: "(if zf then zero_fill 4 (str_nat (nat y)) else str_nat (nat y)) = four_digits y"
  proof (cases zf)
    case True
    with a show ?thesis using zero_fill_4 [of "nat y"] by simp
  next
    case False
    with a have "1000 \<le> nat y" "nat y < 10000" by auto
    with False show ?thesis by (simp add: str_nat_4 four_digits_def)
  qed
  from a have "zero_fill 2 (str_nat (nat m)) = two_digits m" "zero_fill 2 (str_nat (nat d)) = two_digits d"
    using zero_fill_2 [of "nat m"] zero_fill_2 [of "nat d"] by auto
  with y show ?thesis by (simp add: strftime_ymd_def iso_date_def)
qed

lemma days_in_month_calendar:
  "1 \<le> m \<Longrightarrow> m \<le> 12 \<Longrightarrow> days_in_month y m = calendar_month_length y m"
proof -
  assume "1 \<le> m" "m \<le> 12"
  then consider "m = 1" | "m = 2" | "m = 3" | "m = 4" | "m = 5" | "m = 6"
    | "m = 7" | "m = 8" | "m = 9" | "m = 10" | "m = 11" | "m = 12"
    by atomize_elim presburger
  then show ?thesis
    by cases (simp_all add: days_in_month_def calendar_month_length_def is_leap_def
        days_in_month_table_def eval_nat_numeral)
qed

lemma calendar_month_length_bounds: "28 \<le> calendar_month_length y m \<and> calendar_month_length y m \<le> 31"
  by (simp add: calendar_month_length_def)

lemma month_range_dates:
  assumes "1 \<le> y" "y \<le> 9999" "1 \<le> m" "m \<le> 12"
  shows "get_month_date_range zf y m
           = Inr (strftime_ymd zf (y, m, 1), strftime_ymd zf (y, m, calendar_month_length y m))"
proof -
  have first: "datetime y m 1 = Inr (y, m, 1)"
    using assms calendar_month_length_bounds [of y m]
    by (simp add: datetime_def c_int_def days_in_month_calendar)
  have last: "(if m = 12 then datetime y 12 31
               else (case datetime y (m + 1) 1 of Inl e \<Rightarrow> Inl e | Inr nxt \<Rightarrow> minus_one_day nxt))
              = Inr (y, m, calendar_month_length y m)"
  proof (cases "m = 12")
    case True
    with assms show ?thesis
      by (simp add: datetime_def c_int_def days_in_month_calendar calendar_month_length_def)
  next
    case False
    with assms have "datetime y (m + 1) 1 = Inr (y, m + 1, 1)"
      using calendar_month_length_bounds [of y "m + 1"]
      by (simp add: datetime_def c_int_def days_in_month_calendar)
    with False assms show ?thesis
      by (simp add: minus_one_day_def days_in_month_calendar)
  qed
  show ?thesis
    unfolding get_month_date_range_def first last by simp
qed

lemma month_range_valid:
  assumes "1 \<le> y" "y \<le> 9999" "zf \<or> 1000 \<le> y" "1 \<le> m" "m \<le> 12"
  shows "get_month_date_range zf y m
           = Inr (iso_date y m 1, iso_date y m (calendar_month_length y m))"
proof -
  have "strftime_ymd zf (y, m, 1) = iso_date y m 1"
    using assms by (intro strftime_iso) auto
  moreover have "strftime_ymd zf (y, m, calendar_month_length y m)
      = iso_date y m (calendar_month_length y m)"
    using assms calendar_month_length_bounds [of y m] by (intro strftime_iso) auto
  ultimately show ?thesis
    using assms by (simp add: month_range_dates)
qed


lemma download_month_exists:
  "files w (month_filename y m) = Some c \<Longrightarrow>
   download_month zf srv y m w
     = Inr (True, w\<lparr>printed := printed w @ [AlreadyExists (month_filename y m)]\<rparr>)"
  by (simp add: download_month_def)






lemma download_month_fails:
  assumes "1 \<le> y" "y \<le> 9999" "1 \<le> m" "m \<le> 12"
    and "files w (month_filename y m) = None"
    and "request_fails (srv (length (requests w)) (month_request zf y m))"
  shows "download_month zf srv y m w
     = Inr (False, w\<lparr>requests := requests w @ [month_request zf y m],
                     printed := printed w @ [Downloading (month_filename y m), Failed]\<rparr>)"
  using assms(5,6)
  by (auto simp: download_month_def create_payload_def month_range_dates [OF assms(1-4)]
      month_request_def request_fails_def Let_def split: post_outcome.splits)

lemma download_month_requests:
  assumes "1 \<le> y" "y \<le> 9999" "1 \<le> m" "m \<le> 12"
    and "files w (month_filename y m) = None"
  shows "\<exists>ok w'. download_month zf srv y m w = Inr (ok, w')
           \<and> requests w' = requests w @ [month_request zf y m]"
  using assms(5)
  by (auto simp: download_month_def create_payload_def month_range_dates [OF assms(1-4)]
      month_request_def Let_def split: post_outcome.splits)

lemma month_loop_failing:
  assumes y: "1 \<le> y" "y \<le> 9999" and srv: "\<forall>n r. request_fails (srv n r)"
  shows "\<forall>m \<in> set ms. 1 \<le> m \<and> m \<le> 12 \<Longrightarrow> files w = (\<lambda>f. None) \<Longrightarrow>
    \<exists>w'. for_each (month_step zf srv y) ms ((t, s, f), w)
            = Inr ((t + length ms, s, f + length ms), w')
      \<and> files w' = files w \<and> length (requests w') = length (requests w) + length ms"
proof (induction ms arbitrary: t f w)
  case Nil
  then show ?case by simp
next
  case (Cons m ms)
  then have m: "1 \<le> m" "m \<le> 12" by auto
  define w1 where "w1 = w\<lparr>requests := requests w @ [month_request zf y m],
                     printed := printed w @ [Downloading (month_filename y m), Failed]\<rparr>"
  have d: "download_month zf srv y m w = Inr (False, w1)"
    unfolding w1_def using Cons.prems(2) srv by (intro download_month_fails y m) auto
  have step: "month_step zf srv y m ((t, s, f), w) = Inr ((t + 1, s, f + 1), w1)"
    by (simp add: month_step_def d)
  have "\<forall>m \<in> set ms. 1 \<le> m \<and> m \<le> 12" "files w1 = (\<lambda>f. None)"
    using Cons.prems by (simp_all add: w1_def)
  from Cons.IH [OF this, of "t + 1" "f + 1"] obtain w' where
    "for_each (month_step zf srv y) ms ((t + 1, s, f + 1), w1)
            = Inr ((t + 1 + length ms, s, f + 1 + length ms), w')"
    "files w' = files w1" "length (requests w') = length (requests w1) + length ms"
    by blast
  with step show ?case by (simp add: w1_def)
qed

lemma year_loop_failing:
  assumes now: "snd now \<le> 12" and srv: "\<forall>n r. request_fails (srv n r)"
  shows "\<forall>y \<in> set ys. 1 \<le> y \<and> y \<le> 9999 \<Longrightarrow> files w = (\<lambda>f. None) \<Longrightarrow>
    \<exists>w'. for_each (year_step zf srv now) ys ((t, s, f), w)
            = Inr ((t + length (concat (map (\<lambda>y. map (\<lambda>m. (y, m)) [1..(if y = fst now then snd now else 12)]) ys)), s,
                    f + length (concat (map (\<lambda>y. map (\<lambda>m. (y, m)) [1..(if y = fst now then snd now else 12)]) ys))), w')
      \<and> files w' = files w
      \<and> length (requests w') = length (requests w)
           + length (concat (map (\<lambda>y. map (\<lambda>m. (y, m)) [1..(if y = fst now then snd now else 12)]) ys))"
proof (induction ys arbitrary: t f w)
  case Nil
  then show ?case by simp
next
  case (Cons y ys)
  then have y: "1 \<le> y" "y \<le> 9999" by auto
  define lm where "lm = (if y = fst now then snd now else 12)"
  have ms: "\<forall>m \<in> set [1..lm]. 1 \<le> m \<and> m \<le> 12" using now by (auto simp: lm_def)
  from month_loop_failing [OF y srv ms Cons.prems(2), of zf t s f] obtain w1 where
    s: "for_each (month_step zf srv y) [1..lm] ((t, s, f), w)
            = Inr ((t + length [1..lm], s, f + length [1..lm]), w1)"
    and f1: "files w1 = files w"
    and r1: "length (requests w1) = length (requests w) + length [1..lm]" by blast
  have step: "year_step zf srv now y ((t, s, f), w) = Inr ((t + length [1..lm], s, f + length [1..lm]), w1)"
    using s by (simp add: year_step_def lm_def)
  have "\<forall>y \<in> set ys. 1 \<le> y \<and> y \<le> 9999" "files w1 = (\<lambda>f. None)"
    using Cons.prems f1 by simp_all
  from Cons.IH [OF this, of "t + length [1..lm]" "f + length [1..lm]"] obtain w' where
    "for_each (year_step zf srv now) ys ((t + length [1..lm], s, f + length [1..lm]), w1)
            = Inr ((t + length [1..lm] + length (concat (map (\<lambda>y. map (\<lambda>m. (y, m)) [1..(if y = fst now then snd now else 12)]) ys)), s,
                    f + length [1..lm] + length (concat (map (\<lambda>y. map (\<lambda>m. (y, m)) [1..(if y = fst now then snd now else 12)]) ys))), w')"
    "files w' = files w1"
    "length (requests w') = length (requests w1)
           + length (concat (map (\<lambda>y. map (\<lambda>m. (y, m)) [1..(if y = fst now then snd now else 12)]) ys))"
    by blast
  with step f1 r1 show ?case by (simp add: lm_def)
qed

text \<open>
  C5. When the artifact of the window is on disk, \<open>download_month\<close> returns \<open>True\<close> with
  no request sent and no file changed. When it is not and the request fails,
  \<open>download_month\<close> returns \<open>False\<close>, sends that one request, prints the failure and
  leaves the files as they were, so that the next call for the window, whatever the
  server then answers, sends the request again. A failed month is counted and the loop goes
  on with the next month; with a server that fails every request and no file on disk the
  driver still goes through every window.
\<close>

theorem download_month_resumable:
  "(files w (month_filename y m) \<noteq> None \<longrightarrow>
      (\<exists>w'. download_month zf srv y m w = Inr (True, w')
         \<and> requests w' = requests w \<and> files w' = files w))
   \<and> (1 \<le> y \<and> y \<le> 9999 \<and> 1 \<le> m \<and> m \<le> 12 \<and> files w (month_filename y m) = None
        \<and> request_fails (srv (length (requests w)) (month_request zf y m)) \<longrightarrow>
      (\<exists>w'. download_month zf srv y m w = Inr (False, w')
         \<and> files w' = files w
         \<and> requests w' = requests w @ [month_request zf y m]
         \<and> printed w' = printed w @ [Downloading (month_filename y m), Failed]
         \<and> (\<forall>srv'. \<exists>ok w''. download_month zf srv' y m w' = Inr (ok, w'')
               \<and> requests w'' = requests w' @ [month_request zf y m])))
   \<and> (download_month zf srv y m w = Inr (False, w1) \<longrightarrow>
        for_each (month_step zf srv y) (m # ms) ((t, s, f), w)
          = for_each (month_step zf srv y) ms ((t + 1, s, f + 1), w1))
   \<and> (1 \<le> start_year \<and> end_year \<le> 9999 \<and> snd now \<le> 12
        \<and> (\<forall>f. files w f = None) \<and> (\<forall>n r. request_fails (srv n r)) \<longrightarrow>
      (\<exists>w'. download_all zf srv now start_year end_year w
               = Inr ((length (run_windows now start_year end_year), 0,
                       length (run_windows now start_year end_year)), w')
         \<and> length (requests w') = length (requests w) + length (run_windows now start_year end_year)
         \<and> files w' = files w))"
proof (intro conjI impI)
  assume "files w (month_filename y m) \<noteq> None"
  then show "\<exists>w'. download_month zf srv y m w = Inr (True, w')
         \<and> requests w' = requests w \<and> files w' = files w"
    by (auto simp: download_month_exists)
next
  assume a: "1 \<le> y \<and> y \<le> 9999 \<and> 1 \<le> m \<and> m \<le> 12 \<and> files w (month_filename y m) = None
        \<and> request_fails (srv (length (requests w)) (month_request zf y m))"
  define w' where "w' = w\<lparr>requests := requests w @ [month_request zf y m],
                     printed := printed w @ [Downloading (month_filename y m), Failed]\<rparr>"
  have d: "download_month zf srv y m w = Inr (False, w')"
    unfolding w'_def using a by (intro download_month_fails) auto
  have again: "\<exists>ok w''. download_month zf srv' y m w' = Inr (ok, w'')
               \<and> requests w'' = requests w' @ [month_request zf y m]" for srv'
    using a by (intro download_month_requests) (auto simp: w'_def)
  from d again show "\<exists>w'. download_month zf srv y m w = Inr (False, w')
         \<and> files w' = files w
         \<and> requests w' = requests w @ [month_request zf y m]
         \<and> printed w' = printed w @ [Downloading (month_filename y m), Failed]
         \<and> (\<forall>srv'. \<exists>ok w''. download_month zf srv' y m w' = Inr (ok, w'')
               \<and> requests w'' = requests w' @ [month_request zf y m])"
    by (intro exI [of _ w']) (simp add: w'_def)
next
  assume "download_month zf srv y m w = Inr (False, w1)"
  then show "for_each (month_step zf srv y) (m # ms) ((t, s, f), w)
          = for_each (month_step zf srv y) ms ((t + 1, s, f + 1), w1)"
    by (simp add: month_step_def)
next
  assume a: "1 \<le> start_year \<and> end_year \<le> 9999 \<and> snd now \<le> 12
        \<and> (\<forall>f. files w f = None) \<and> (\<forall>n r. request_fails (srv n r))"
  then have ys: "\<forall>y \<in> set [start_year..end_year]. 1 \<le> y \<and> y \<le> 9999" by auto
  from a have "snd now \<le> 12" "\<forall>n r. request_fails (srv n r)" "files w = (\<lambda>f. None)" by auto
  from year_loop_failing [OF this(1,2) ys this(3), of zf 0 0 0]
  show "\<exists>w'. download_all zf srv now start_year end_year w
               = Inr ((length (run_windows now start_year end_year), 0,
                       length (run_windows now start_year end_year)), w')
         \<and> length (requests w') = length (requests w) + length (run_windows now start_year end_year)
         \<and> files w' = files w"
    by (auto simp: download_all_def run_windows_def)
qed

lemma str_nat_short: "n < 1000 \<Longrightarrow> length (str_nat n) < 4"
proof -
  assume "n < 1000"
  then consider "n < 10" | "10 \<le> n" "n < 100" | "100 \<le> n" "n < 1000"
    by linarith
  then show ?thesis
    by cases (simp_all add: str_nat_1 str_nat_2 str_nat_3)
qed

lemma strftime_plain:
  "0 \<le> m \<Longrightarrow> m < 100 \<Longrightarrow> 0 \<le> d \<Longrightarrow> d < 100 \<Longrightarrow>
   strftime_ymd False (y, m, d) = str_nat (nat y) @ ''-'' @ two_digits m @ ''-'' @ two_digits d"
  using zero_fill_2 [of "nat m"] zero_fill_2 [of "nat d"]
  by (simp add: strftime_ymd_def)

lemma datetime_raises:
  "y < 1 \<or> 9999 < y \<or> m < 1 \<or> 12 < m \<Longrightarrow>
   datetime y m 1 = Inl (if c_int y \<and> c_int m then ValueError else OverflowError)"
  unfolding datetime_def c_int_def by (cases "y < 1 \<or> 9999 < y") simp_all

lemma month_range_raises:
  "y < 1 \<or> 9999 < y \<or> m < 1 \<or> 12 < m \<Longrightarrow>
   get_month_date_range zf y m = Inl (if c_int y \<and> c_int m then ValueError else OverflowError)"
  unfolding get_month_date_range_def by (simp only: datetime_raises sum.case)

text \<open>
  C7, amended. For a year from 1 to 9999 and a month from 1 to 12, \<open>get_month_date_range\<close>
  returns the first day and the last day of the month; the last day is the day before the
  first day of the following month and has the calendar's length of the month, leap years
  included. Both are written \<open>YYYY-MM-DD\<close> when the year is at least 1000 or the platform
  fills \<open>%Y\<close> with zeros; where it does not, a year below 1000 is written with fewer than
  four digits. For a year outside 1 to 9999 or a month outside 1 to 12 the call raises:
  \<open>ValueError\<close> when year and month fit a C \<open>int\<close>, \<open>OverflowError\<close> when one does not.
\<close>

theorem date_range_of_month:
  "(1 \<le> y \<and> y \<le> 9999 \<and> (zf \<or> 1000 \<le> y) \<and> 1 \<le> m \<and> m \<le> 12 \<longrightarrow>
      get_month_date_range zf y m
        = Inr (iso_date y m 1, iso_date y m (calendar_month_length y m))
      \<and> minus_one_day (if m = 12 then (y + 1, 1, 1) else (y, m + 1, 1))
        = Inr (y, m, calendar_month_length y m))
   \<and> (1 \<le> y \<and> y \<le> 999 \<and> 1 \<le> m \<and> m \<le> 12 \<longrightarrow>
      get_month_date_range False y m
        = Inr (str_nat (nat y) @ ''-'' @ two_digits m @ ''-'' @ two_digits 1,
               str_nat (nat y) @ ''-'' @ two_digits m @ ''-''
                 @ two_digits (calendar_month_length y m))
      \<and> length (str_nat (nat y)) < 4)
   \<and> (y < 1 \<or> 9999 < y \<or> m < 1 \<or> 12 < m \<longrightarrow>
      get_month_date_range zf y m
        = Inl (if c_int y \<and> c_int m then ValueError else OverflowError))"
proof (intro conjI impI)
  assume a: "1 \<le> y \<and> y \<le> 9999 \<and> (zf \<or> 1000 \<le> y) \<and> 1 \<le> m \<and> m \<le> 12"
  then show "get_month_date_range zf y m
        = Inr (iso_date y m 1, iso_date y m (calendar_month_length y m))"
    by (intro month_range_valid) auto
  from a show "minus_one_day (if m = 12 then (y + 1, 1, 1) else (y, m + 1, 1))
        = Inr (y, m, calendar_month_length y m)"
    by (simp add: minus_one_day_def days_in_month_calendar calendar_month_length_def)
next
  assume a: "1 \<le> y \<and> y \<le> 999 \<and> 1 \<le> m \<and> m \<le> 12"
  then have "get_month_date_range False y m
      = Inr (strftime_ymd False (y, m, 1), strftime_ymd False (y, m, calendar_month_length y m))"
    by (intro month_range_dates) auto
  moreover have "strftime_ymd False (y, m, 1)
      = str_nat (nat y) @ ''-'' @ two_digits m @ ''-'' @ two_digits 1"
    using a by (intro strftime_plain) auto
  moreover have "strftime_ymd False (y, m, calendar_month_length y m)
      = str_nat (nat y) @ ''-'' @ two_digits m @ ''-'' @ two_digits (calendar_month_length y m)"
    using a calendar_month_length_bounds [of y m] by (intro strftime_plain) auto
  ultimately show "get_month_date_range False y m
        = Inr (str_nat (nat y) @ ''-'' @ two_digits m @ ''-'' @ two_digits 1,
               str_nat (nat y) @ ''-'' @ two_digits m @ ''-''
                 @ two_digits (calendar_month_length y m))"
    by simp
  from a show "length (str_nat (nat y)) < 4"
    by (intro str_nat_short) auto
next
  assume "y < 1 \<or> 9999 < y \<or> m < 1 \<or> 12 < m"
  then show "get_month_date_range zf y m
        = Inl (if c_int y \<and> c_int m then ValueError else OverflowError)"
    by (rule month_range_raises)
qed

text \<open>
  The amended C7 at February 2024 and 1900, at December 999 with and without zeros, and at
  the years 10000 and \<open>2^31\<close> and the month 13.
\<close>

theorem date_range_of_month_witness:
  "get_month_date_range False 2024 2 = Inr (''2024-02-01'', ''2024-02-29'')
   \<and> minus_one_day (2024, 3, 1) = Inr (2024, 2, 29)
   \<and> get_month_date_range True 1900 2 = Inr (''1900-02-01'', ''1900-02-28'')
   \<and> get_month_date_range True 999 12 = Inr (''0999-12-01'', ''0999-12-31'')
   \<and> minus_one_day (1000, 1, 1) = Inr (999, 12, 31)
   \<and> get_month_date_range False 999 12 = Inr (''999-12-01'', ''999-12-31'')
   \<and> get_month_date_range False 10000 1 = Inl ValueError
   \<and> get_month_date_range False 2024 13 = Inl ValueError
   \<and> get_month_date_range False 2147483648 1 = Inl OverflowError"
  using date_range_of_month [of 2024 False 2] date_range_of_month [of 1900 True 2]
    date_range_of_month [of 999 True 12] date_range_of_month [of 10000 False 1]
    date_range_of_month [of 2024 False 13] date_range_of_month [of 2147483648 False 1]
  by (simp add: iso_date_def four_digits_def two_digits_def digit_char_def
      calendar_month_length_def str_nat.simps c_int_def)

text \<open>
  C7 as stated, for every year, fails: at the years 10000 and 0 the call raises
  \<open>ValueError\<close>, at the year \<open>2^31\<close> it raises \<open>OverflowError\<close>, and where the platform does
  not fill \<open>%Y\<close> with zeros the year 999 is written with three digits.
\<close>

theorem date_range_of_month_counterexample:
  "get_month_date_range True 10000 1 = Inl ValueError
   \<and> get_month_date_range False 10000 1 = Inl ValueError
   \<and> get_month_date_range True 0 12 = Inl ValueError
   \<and> get_month_date_range False 0 12 = Inl ValueError
   \<and> get_month_date_range True 2147483648 1 = Inl OverflowError
   \<and> get_month_date_range False 999 12 = Inr (''999-12-01'', ''999-12-31'')"
proof -
  have "get_month_date_range False 999 12
      = Inr (strftime_ymd False (999, 12, 1), strftime_ymd False (999, 12, calendar_month_length 999 12))"
    by (intro month_range_dates) simp_all
  then have "get_month_date_range False 999 12 = Inr (''999-12-01'', ''999-12-31'')"
    by (simp add: strftime_ymd_def calendar_month_length_def zero_fill_def str_nat.simps
        digit_char_def)
  then show ?thesis
    by (simp add: month_range_raises c_int_def)
qed

lemmas filename_eval = month_filename_def str_int_def str_nat.simps fmt_02d_def zero_fill_def
  digit_char_def



lemmas month_eval = download_month_def create_payload_def get_month_date_range_def datetime_def
  c_int_def
  days_in_month_def days_in_month_table_def is_leap_def minus_one_day_def strftime_ymd_def
  month_referer_def month_request_def calendar_month_length_def raise_for_status_def
  request_fails_def Let_def

text \<open>C5 at February 2024, with a server that fails the first request only.\<close>

theorem download_month_resumable_witness:
  "download_month False failing_server 2024 2
      (empty_world\<lparr>files := (\<lambda>f. if f = ''ntsb_2024_02.zip'' then Some ''PK'' else None)\<rparr>)
     = Inr (True, empty_world\<lparr>files := (\<lambda>f. if f = ''ntsb_2024_02.zip'' then Some ''PK'' else None),
                              printed := [AlreadyExists ''ntsb_2024_02.zip'']\<rparr>)
   \<and> download_month False flaky_server 2024 2 empty_world
     = Inr (False, empty_world\<lparr>requests := [month_request False 2024 2],
                               printed := [Downloading ''ntsb_2024_02.zip'', Failed]\<rparr>)
   \<and> (case download_month False flaky_server 2024 2
            (empty_world\<lparr>requests := [month_request False 2024 2],
                          printed := [Downloading ''ntsb_2024_02.zip'', Failed]\<rparr>) of
         Inl e \<Rightarrow> None
       | Inr (ok, w) \<Rightarrow> Some (ok, requests w, files w ''ntsb_2024_02.zip''))
     = Some (True, [month_request False 2024 2, month_request False 2024 2], Some ''PK'')
   \<and> month_request False 2024 2
     = \<lparr>referer = ''https://data.ntsb.gov/carol-main-public/query-builder?month=2&year=2024'',
        date_from = ''2024-02-01'', date_to = ''2024-02-29''\<rparr>
   \<and> (case download_all False failing_server (2024, 2) 2024 2024 empty_world of
         Inl e \<Rightarrow> None
       | Inr (cnt, w) \<Rightarrow> Some (cnt, length (requests w), files w ''ntsb_2024_01.zip''))
     = Some ((2, 0, 2), 2, None)"
proof -
  have f: "month_filename 2024 2 = ''ntsb_2024_02.zip''" "month_filename 2024 1 = ''ntsb_2024_01.zip''"
    by (simp_all add: filename_eval)
  have r: "month_request False 2024 2
     = \<lparr>referer = ''https://data.ntsb.gov/carol-main-public/query-builder?month=2&year=2024'',
        date_from = ''2024-02-01'', date_to = ''2024-02-29''\<rparr>"
    by (simp add: month_eval filename_eval)
  have rw: "length (run_windows (2024, 2) 2024 2024) = 2"
    by (simp add: run_windows_def upto.simps)
  note thm1 = download_month_resumable [of
      "empty_world\<lparr>files := (\<lambda>f. if f = ''ntsb_2024_02.zip'' then Some ''PK'' else None)\<rparr>"
      2024 2 False failing_server]
  note thm2 = download_month_resumable [of empty_world 2024 2 False flaky_server
      "empty_world\<lparr>requests := [month_request False 2024 2],
                    printed := [Downloading ''ntsb_2024_02.zip'', Failed]\<rparr>"
      "[]" 0 0 0 2024 2024 "(2024, 2)"]
  note thm3 = download_month_resumable [of empty_world 2024 2 False failing_server
      empty_world "[]" 0 0 0 2024 2024 "(2024, 2)"]
  have c1: "download_month False failing_server 2024 2
      (empty_world\<lparr>files := (\<lambda>f. if f = ''ntsb_2024_02.zip'' then Some ''PK'' else None)\<rparr>)
     = Inr (True, empty_world\<lparr>files := (\<lambda>f. if f = ''ntsb_2024_02.zip'' then Some ''PK'' else None),
                              printed := [AlreadyExists ''ntsb_2024_02.zip'']\<rparr>)"
    using thm1 by (auto simp: download_month_def f empty_world_def Let_def)
  have c2: "download_month False flaky_server 2024 2 empty_world
     = Inr (False, empty_world\<lparr>requests := [month_request False 2024 2],
                               printed := [Downloading ''ntsb_2024_02.zip'', Failed]\<rparr>)"
    using thm2 by (auto simp: f r flaky_server_def empty_world_def request_fails_def raise_for_status_def)
  have c3: "(case download_month False flaky_server 2024 2
            (empty_world\<lparr>requests := [month_request False 2024 2],
                          printed := [Downloading ''ntsb_2024_02.zip'', Failed]\<rparr>) of
         Inl e \<Rightarrow> None
       | Inr (ok, w) \<Rightarrow> Some (ok, requests w, files w ''ntsb_2024_02.zip''))
     = Some (True, [month_request False 2024 2, month_request False 2024 2], Some ''PK'')"
    unfolding r by (simp add: month_eval filename_eval flaky_server_def empty_world_def)
  have c5: "(case download_all False failing_server (2024, 2) 2024 2024 empty_world of
         Inl e \<Rightarrow> None
       | Inr (cnt, w) \<Rightarrow> Some (cnt, length (requests w), files w ''ntsb_2024_01.zip''))
     = Some ((2, 0, 2), 2, None)"
    using thm3 by (auto simp: rw failing_server_def request_fails_def empty_world_def)
  from c1 c2 c3 r c5 show ?thesis by blast
qed

section \<open>Properties of the scraper\<close>

lemma cell_value_simps:
  "cell_value soup ''date'' cell = JStr (py_strip (text_of cell))"
  "cell_value soup ''time'' cell = or_none (py_strip (text_of cell))"
  "cell_value soup ''type'' cell =
     (case find_first (is_tag ''a'') cell of
        Some type_link \<Rightarrow> JStr (py_strip (text_of type_link))
      | None \<Rightarrow> JStr (py_strip (text_of cell)))"
  "cell_value soup ''owner_operator'' cell = JStr (py_strip (text_of cell))"
  "cell_value soup ''registration'' cell = JStr (py_strip (text_of cell))"
  "cell_value soup ''msn'' cell = JStr (py_strip (text_of cell))"
  "cell_value soup ''year_of_manufacture'' cell = JStr (py_strip (text_of cell))"
  "cell_value soup ''fatalities'' cell = JStr (py_strip (text_of cell))"
  "cell_value soup ''aircraft_damage'' cell = JStr (py_strip (text_of cell))"
  "cell_value soup ''location'' cell = JStr (extract_country (py_strip (text_of cell)) soup)"
  "cell_value soup ''phase'' cell = JStr (py_strip (text_of cell))"
  "cell_value soup ''nature'' cell = JStr (py_strip (text_of cell))"
  "cell_value soup ''departure_airport'' cell = or_none (py_strip (text_of cell))"
  "cell_value soup ''destination_airport'' cell = or_none (py_strip (text_of cell))"
  "cell_value soup ''confidence_rating'' cell = JStr (py_strip (text_of cell))"
  by (simp_all add: cell_value_def or_none_def Let_def)

lemma first_rule:
  "(case map_option fst (List.find (\<lambda>r. snd r c) ((k, P) # rules)) of None \<Rightarrow> acc | Some k \<Rightarrow> f k)
     = (if P c then f k
        else (case map_option fst (List.find (\<lambda>r. snd r c) rules) of None \<Rightarrow> acc | Some k \<Rightarrow> f k))"
  by simp

lemma no_rule:
  "(case map_option fst (List.find (\<lambda>r. snd r c) []) of None \<Rightarrow> acc | Some k \<Rightarrow> f k) = acc"
  by simp

lemma table_row_rules:
  "table_row soup row acc =
     (if 2 \<le> length (row_cells row) then
        (case known_field (row_caption row) of
           None \<Rightarrow> acc
         | Some k \<Rightarrow> AList.update k (cell_value soup k (row_cells row ! 1)) acc)
      else acc)"
  unfolding known_field_def label_rules_def first_rule no_rule cell_value_simps
  unfolding table_row_def row_cells_def row_caption_def Let_def
  by (rule refl)

text \<open>The search that keeps the following siblings finds what \<open>find\<close> finds.\<close>

lemma find_app:
  "List.find p (xs @ ys) = (case List.find p xs of None \<Rightarrow> List.find p ys | Some x \<Rightarrow> Some x)"
  by (induction xs) auto

lemma find_with_siblings_first:
  "map_option fst (find_with_siblings p cs) = List.find p (concat (map (\<lambda>c. c # descendants c) cs))"
  by (induction p cs rule: find_with_siblings.induct) (auto simp: find_app split: option.splits)

lemma find_with_siblings_find:
  "map_option fst (find_with_siblings p (contents soup)) = find_first p soup"
  by (cases soup) (simp_all add: find_first_def find_with_siblings_first)

lemma split_from_length: "c \<in> set s \<Longrightarrow> 2 \<le> length (split_from c cur s)"
proof (induction s arbitrary: cur)
  case Nil
  then show ?case by simp
next
  case (Cons x xs)
  show ?case
  proof (cases "x = c")
    case True
    have "1 \<le> length (split_from c [] xs)"
      by (cases "split_from c [] xs") simp_all
    with True show ?thesis by simp
  next
    case False
    with Cons show ?thesis by simp
  qed
qed

text \<open>
  C6. When the first \<open>Location:\<close> caption cell of the page is followed by a cell with a
  country link, the location is the stripped text of that link, whatever the raw text;
  otherwise, when the raw text has a dash, it is the stripped part after the last dash,
  \<open>CountryY\<close> for \<open>Near CityX - CountryY\<close>; otherwise it is the stripped raw text.
\<close>

theorem extract_country_fallback:
  "(find_with_siblings
       (\<lambda>t. is_tag ''td'' t \<and> has_class ''caption'' t \<and> string_has ''Location:'' t)
       (contents soup) = Some (location_row, siblings)
     \<and> List.find (is_tag ''td'') siblings = Some location_cell
     \<and> find_first (\<lambda>t. is_tag ''a'' t \<and> href_has ''/asndb/country/'' t) location_cell = Some link
     \<longrightarrow> country_link soup = Some link
         \<and> extract_country location_text soup = py_strip (text_of link))
   \<and> (country_link soup = None \<and> CHR ''-'' \<notin> set seg \<longrightarrow>
        extract_country (pre @ ''-'' @ seg) soup = py_strip seg)
   \<and> (country_link soup = None \<and> CHR ''-'' \<notin> set location_text \<longrightarrow>
        extract_country location_text soup = py_strip location_text)
   \<and> (country_link soup = None \<longrightarrow>
        extract_country ''Near CityX - CountryY'' soup = ''CountryY'')"
proof (intro conjI impI)
  assume "find_with_siblings
       (\<lambda>t. is_tag ''td'' t \<and> has_class ''caption'' t \<and> string_has ''Location:'' t)
       (contents soup) = Some (location_row, siblings)
     \<and> List.find (is_tag ''td'') siblings = Some location_cell
     \<and> find_first (\<lambda>t. is_tag ''a'' t \<and> href_has ''/asndb/country/'' t) location_cell = Some link"
  then show l: "country_link soup = Some link" by (simp add: country_link_def)
  then show "extract_country location_text soup = py_strip (text_of link)"
    by (simp add: extract_country_def)
next
  assume a: "country_link soup = None \<and> CHR ''-'' \<notin> set seg"
  then have "last (split_on CHR ''-'' (pre @ ''-'' @ seg)) = seg"
    using split_from_last [of "CHR ''-''" seg "[]" pre] by (simp add: split_on_def)
  moreover have "2 \<le> length (split_on CHR ''-'' (pre @ ''-'' @ seg))"
    unfolding split_on_def by (rule split_from_length) simp
  ultimately show "extract_country (pre @ ''-'' @ seg) soup = py_strip seg"
    using a by (simp add: extract_country_def)
next
  assume "country_link soup = None \<and> CHR ''-'' \<notin> set location_text"
  then show "extract_country location_text soup = py_strip location_text"
    by (simp add: extract_country_def)
next
  assume "country_link soup = None"
  then show "extract_country ''Near CityX - CountryY'' soup = ''CountryY''"
    by (simp add: extract_country_def split_on_def py_strip_def is_space_def)
qed

text \<open>C6 at a page with a country link and at a page without.\<close>

theorem extract_country_fallback_witness:
  "extract_country ''Springfield, IL - United States of America'' location_page
     = ''United States of America''
   \<and> country_link plain_page = None
   \<and> extract_country ''Near CityX - CountryY'' plain_page = ''CountryY''
   \<and> extract_country '' Guinea-Bissau'' plain_page = ''Bissau''
   \<and> extract_country '' Atlantic Ocean  '' plain_page = ''Atlantic Ocean''"
proof -
  have n: "country_link plain_page = None"
    by (simp add: country_link_def plain_page_def has_class_def string_has_def href_has_def
        find_first_def is_space_def)
  have "extract_country ''Springfield, IL - United States of America'' location_page
     = py_strip '' United States of America ''"
    using extract_country_fallback [of location_page
        "Tag ''td'' [(''class'', ''caption'')] [NavigableString ''Location:'']"
        "[NavigableString '' '',
          Tag ''td'' [(''class'', ''desc'')]
                [NavigableString ''Springfield, IL - '',
                 Tag ''a'' [(''href'', ''/asndb/country/N'')]
                   [NavigableString '' United States of America '']]]"
        "Tag ''td'' [(''class'', ''desc'')]
                [NavigableString ''Springfield, IL - '',
                 Tag ''a'' [(''href'', ''/asndb/country/N'')]
                   [NavigableString '' United States of America '']]"
        "Tag ''a'' [(''href'', ''/asndb/country/N'')]
                   [NavigableString '' United States of America '']"
        "''Springfield, IL - United States of America''"]
    by (simp add: location_page_def has_class_def string_has_def href_has_def find_first_def
        is_space_def)
  moreover have "extract_country ''Near CityX - CountryY'' plain_page = ''CountryY''"
    using extract_country_fallback [of plain_page] n by simp
  moreover have "extract_country '' Guinea-Bissau'' plain_page = py_strip ''Bissau''"
    using extract_country_fallback [of plain_page _ _ _ _ _ "''Bissau''" "'' Guinea''"] n by simp
  moreover have "extract_country '' Atlantic Ocean  '' plain_page = py_strip '' Atlantic Ocean  ''"
    using extract_country_fallback [of plain_page _ _ _ _ "'' Atlantic Ocean  ''"] n by simp
  ultimately show ?thesis using n by (simp add: py_strip_def is_space_def)
qed

lemma known_field_in_table: "known_field c = Some k \<Longrightarrow> k \<in> set table_fields"
  unfolding known_field_def table_fields_def
  by (cases "List.find (\<lambda>r. snd r c) label_rules") (auto simp: find_Some_iff)

lemma url_not_table_field: "''url'' \<notin> set table_fields"
  by (simp add: table_fields_def label_rules_def)

lemma extra_not_table_field: "''narrative'' \<notin> set table_fields" "''sources'' \<notin> set table_fields"
  by (simp_all add: table_fields_def label_rules_def)

lemma map_of_table_row:
  "map_of (table_row soup row acc) k =
     (if fills_field k row then Some (cell_value soup k (row_cells row ! 1)) else map_of acc k)"
  by (auto simp: table_row_rules fills_field_def update_conv' split: option.splits)

lemma map_of_rows:
  "map_of (foldl (\<lambda>acc row. table_row soup row acc) acc rows) k =
     (if filter (fills_field k) rows = [] then map_of acc k
      else Some (cell_value soup k (row_cells (last (filter (fills_field k) rows)) ! 1)))"
proof (induction rows rule: rev_induct)
  case Nil
  then show ?case by simp
next
  case (snoc row rows)
  then show ?case
    by (cases "fills_field k row") (simp_all add: map_of_table_row)
qed

lemma keys_table_row:
  "set (map fst (table_row soup row acc)) \<subseteq> set (map fst acc) \<union> set table_fields"
  using known_field_in_table
  by (auto simp: table_row_rules dom_update split: option.splits)

lemma keys_rows:
  "set (map fst (foldl (\<lambda>acc row. table_row soup row acc) acc rows))
     \<subseteq> set (map fst acc) \<union> set table_fields"
proof (induction rows rule: rev_induct)
  case Nil
  then show ?case by simp
next
  case (snoc row rows)
  then show ?case
    using keys_table_row [of soup row "foldl (\<lambda>acc row. table_row soup row acc) acc rows"]
    by (simp del: set_map) blast
qed

lemma parse_detail_Some:
  assumes "parse_accident_detail lib html url = Some r"
  obtains table where
    "find_first (is_tag ''table'') (soup_of lib html) = Some table"
    "r = (let d1 = foldl (\<lambda>acc row. table_row (soup_of lib html) row acc) [(''url'', JStr url)]
                      (find_all (is_tag ''tr'') table);
               d2 = (case narrative_of lib (soup_of lib html) of
                       None \<Rightarrow> d1
                     | Some t \<Rightarrow> AList.update ''narrative'' (JStr t) d1)
           in (case sources_of lib (soup_of lib html) of
                       None \<Rightarrow> d2
                     | Some srcs \<Rightarrow> AList.update ''sources'' (JArr (map JStr srcs)) d2))"
  using assms by (auto simp: parse_accident_detail_def Let_def split: option.splits)

lemma map_of_detail:
  assumes "parse_accident_detail lib html url = Some r"
    and "find_first (is_tag ''table'') (soup_of lib html) = Some table"
    and "k \<noteq> ''narrative''" "k \<noteq> ''sources''"
  shows "map_of r k =
     map_of (foldl (\<lambda>acc row. table_row (soup_of lib html) row acc) [(''url'', JStr url)]
               (find_all (is_tag ''tr'') table)) k"
  using assms
  by (auto simp: parse_accident_detail_def Let_def update_conv' split: option.splits)

text \<open>
  C10. Every record \<open>_parse_accident_detail\<close> returns holds under \<open>url\<close> the address it was
  given, whatever the rows of the table; the key the staging loader takes from the record
  is the last segment of that address.
\<close>

theorem detail_url_kept:
  "parse_accident_detail lib html url = Some r \<longrightarrow>
     map_of r ''url'' = Some (JStr url)
     \<and> source1_id (JObj r) = Inr (JStr (last (split_on CHR ''/'' url)))"
proof
  assume a: "parse_accident_detail lib html url = Some r"
  then obtain table where t: "find_first (is_tag ''table'') (soup_of lib html) = Some table"
    by (rule parse_detail_Some)
  have "map_of r ''url'' =
     map_of (foldl (\<lambda>acc row. table_row (soup_of lib html) row acc) [(''url'', JStr url)]
               (find_all (is_tag ''tr'') table)) ''url''"
    by (rule map_of_detail [OF a t]) simp_all
  also have "\<dots> = Some (JStr url)"
  proof -
    have "filter (fills_field ''url'') (find_all (is_tag ''tr'') table) = []"
      using url_not_table_field known_field_in_table
      by (auto simp: filter_empty_conv fills_field_def)
    then show ?thesis by (simp add: map_of_rows)
  qed
  finally have u: "map_of r ''url'' = Some (JStr url)" .
  then show "map_of r ''url'' = Some (JStr url)
     \<and> source1_id (JObj r) = Inr (JStr (last (split_on CHR ''/'' url)))"
    by simp
qed

lemma known_field_first:
  "known_field c = Some k \<longleftrightarrow>
     (\<exists>i < length label_rules. fst (label_rules ! i) = k \<and> snd (label_rules ! i) c
        \<and> (\<forall>j < i. \<not> snd (label_rules ! j) c))"
proof
  assume "known_field c = Some k"
  then obtain r where "List.find (\<lambda>r. snd r c) label_rules = Some r" "fst r = k"
    by (auto simp: known_field_def)
  then show "\<exists>i < length label_rules. fst (label_rules ! i) = k \<and> snd (label_rules ! i) c
        \<and> (\<forall>j < i. \<not> snd (label_rules ! j) c)"
    unfolding find_Some_iff by blast
next
  assume "\<exists>i < length label_rules. fst (label_rules ! i) = k \<and> snd (label_rules ! i) c
        \<and> (\<forall>j < i. \<not> snd (label_rules ! j) c)"
  then obtain i where "i < length label_rules" "fst (label_rules ! i) = k"
    "snd (label_rules ! i) c" "\<forall>j < i. \<not> snd (label_rules ! j) c" by blast
  then have "List.find (\<lambda>r. snd r c) label_rules = Some (label_rules ! i)"
    unfolding find_Some_iff by blast
  with \<open>fst (label_rules ! i) = k\<close> show "known_field c = Some k"
    by (simp add: known_field_def)
qed

lemma known_field_exclusions:
  "py_in ''aircraft'' c \<Longrightarrow> known_field c \<noteq> Some ''type''"
  "py_in ''other'' c \<Longrightarrow> known_field c \<noteq> Some ''fatalities''"
  by (simp_all add: known_field_def label_rules_def)

text \<open>
  C4, amended. For a page with a table and a field \<open>k\<close> of the table of labels: the record
  holds \<open>k\<close> exactly when some row of at least two cells has a caption whose first matching
  rule, in the order of declaration, is that of \<open>k\<close>; the value is then taken from the value
  cell of the last such row: its stripped text, but for \<open>type\<close> the stripped text of the
  first link of the cell when it has one, for \<open>location\<close> the result of
  \<open>_extract_country\<close>, and for \<open>time\<close>, \<open>departure_airport\<close> and \<open>destination_airport\<close>
  null when the stripped text is empty. The record has no key beside \<open>url\<close>,
  \<open>narrative\<close>, \<open>sources\<close> and the fields of the table. A caption with \<open>aircraft\<close> never
  fills \<open>type\<close> and one with \<open>other\<close> never fills \<open>fatalities\<close>. The body of the row loop is
  the table of rules read first match first.
\<close>

theorem detail_table_fields:
  "(parse_accident_detail lib html url = Some r
      \<and> find_first (is_tag ''table'') (soup_of lib html) = Some table
      \<and> k \<in> set table_fields \<longrightarrow>
      map_of r k =
        (if field_rows table k = [] then None
         else Some (cell_value (soup_of lib html) k (row_cells (last (field_rows table k)) ! 1))))
   \<and> (parse_accident_detail lib html url = Some r \<longrightarrow>
        set (map fst r) \<subseteq> {''url'', ''narrative'', ''sources''} \<union> set table_fields)
   \<and> (known_field c = Some k \<longleftrightarrow>
        (\<exists>i < length label_rules. fst (label_rules ! i) = k \<and> snd (label_rules ! i) c
           \<and> (\<forall>j < i. \<not> snd (label_rules ! j) c)))
   \<and> (py_in ''aircraft'' c \<longrightarrow> known_field c \<noteq> Some ''type'')
   \<and> (py_in ''other'' c \<longrightarrow> known_field c \<noteq> Some ''fatalities'')
   \<and> table_row soup row acc =
        (if 2 \<le> length (row_cells row) then
           (case known_field (row_caption row) of
              None \<Rightarrow> acc
            | Some f \<Rightarrow> AList.update f (cell_value soup f (row_cells row ! 1)) acc)
         else acc)"
proof (intro conjI impI)
  assume a: "parse_accident_detail lib html url = Some r
      \<and> find_first (is_tag ''table'') (soup_of lib html) = Some table
      \<and> k \<in> set table_fields"
  then have k: "k \<noteq> ''narrative''" "k \<noteq> ''sources''" "k \<noteq> ''url''"
    using extra_not_table_field url_not_table_field by auto
  from a have "map_of r k =
     map_of (foldl (\<lambda>acc row. table_row (soup_of lib html) row acc) [(''url'', JStr url)]
               (find_all (is_tag ''tr'') table)) k"
    using k by (intro map_of_detail) auto
  then show "map_of r k =
        (if field_rows table k = [] then None
         else Some (cell_value (soup_of lib html) k (row_cells (last (field_rows table k)) ! 1)))"
    using k by (simp add: map_of_rows field_rows_def)
next
  assume a: "parse_accident_detail lib html url = Some r"
  then obtain table where
    r: "r = (let d1 = foldl (\<lambda>acc row. table_row (soup_of lib html) row acc) [(''url'', JStr url)]
                      (find_all (is_tag ''tr'') table);
               d2 = (case narrative_of lib (soup_of lib html) of
                       None \<Rightarrow> d1
                     | Some t \<Rightarrow> AList.update ''narrative'' (JStr t) d1)
           in (case sources_of lib (soup_of lib html) of
                       None \<Rightarrow> d2
                     | Some srcs \<Rightarrow> AList.update ''sources'' (JArr (map JStr srcs)) d2))"
    by (rule parse_detail_Some)
  have "set (map fst (foldl (\<lambda>acc row. table_row (soup_of lib html) row acc) [(''url'', JStr url)]
                      (find_all (is_tag ''tr'') table)))
          \<subseteq> {''url''} \<union> set table_fields"
    using keys_rows [of "soup_of lib html" "[(''url'', JStr url)]"] by simp
  then show "set (map fst r) \<subseteq> {''url'', ''narrative'', ''sources''} \<union> set table_fields"
    unfolding r Let_def by (auto simp: dom_update split: option.splits)
next
  show "known_field c = Some k \<longleftrightarrow>
        (\<exists>i < length label_rules. fst (label_rules ! i) = k \<and> snd (label_rules ! i) c
           \<and> (\<forall>j < i. \<not> snd (label_rules ! j) c))"
    by (rule known_field_first)
next
  assume "py_in ''aircraft'' c"
  then show "known_field c \<noteq> Some ''type''" by (rule known_field_exclusions)
next
  assume "py_in ''other'' c"
  then show "known_field c \<noteq> Some ''fatalities''" by (rule known_field_exclusions)
next
  show "table_row soup row acc =
        (if 2 \<le> length (row_cells row) then
           (case known_field (row_caption row) of
              None \<Rightarrow> acc
            | Some f \<Rightarrow> AList.update f (cell_value soup f (row_cells row ! 1)) acc)
         else acc)"
    by (rule table_row_rules)
qed






lemmas string_eval = py_strip_def is_space_def py_lower_def lower_char_def upper_chars_def
  lower_chars_def py_remove_def

lemmas soup_eval = find_first_def find_all_def has_class_def href_has_def string_has_def

lemma demo_detail:
  "parse_accident_detail demo_lib ''DETAIL'' u
     = Some [(''url'', JStr u), (''date'', JStr ''12 JAN 2010''), (''time'', JNull),
             (''type'', JStr ''Cessna 172'')]"
  by (simp add: parse_accident_detail_def demo_lib_def detail_soup_def table_row_def or_none_def
      soup_eval string_eval Let_def)

lemma demo_table:
  "find_first (is_tag ''table'') (soup_of demo_lib ''DETAIL'')
     = Some (Tag ''table'' []
          [Tag ''tr'' []
             [Tag ''td'' [(''class'', ''caption'')] [NavigableString ''Date:''],
              Tag ''td'' [(''class'', ''desc'')] [NavigableString '' 12 JAN 2010 '']],
           Tag ''tr'' []
             [Tag ''td'' [(''class'', ''caption'')] [NavigableString ''Time:''],
              Tag ''td'' [(''class'', ''desc'')] [NavigableString '' '']],
           Tag ''tr'' []
             [Tag ''td'' [(''class'', ''caption'')] [NavigableString ''Type:''],
              Tag ''td'' [(''class'', ''desc'')]
                [Tag ''a'' [(''href'', ''/asndb/type/C172'')] [NavigableString ''Cessna 172''],
                 NavigableString '' (C172)'']]])"
  by (simp add: demo_lib_def detail_soup_def soup_eval)

text \<open>
  C4 as stated fails at a page whose \<open>Time:\<close> cell is empty and whose \<open>Type:\<close> cell holds
  a link and more text: \<open>time\<close> is null, not the empty text of the cell, and \<open>type\<close> is
  the text of the link, not that of the cell.
\<close>

theorem detail_table_fields_counterexample:
  "parse_accident_detail demo_lib ''DETAIL'' ''https://aviation-safety.net/wikibase/1''
     = Some [(''url'', JStr ''https://aviation-safety.net/wikibase/1''),
             (''date'', JStr ''12 JAN 2010''), (''time'', JNull), (''type'', JStr ''Cessna 172'')]
   \<and> row_caption (Tag ''tr'' []
             [Tag ''td'' [(''class'', ''caption'')] [NavigableString ''Time:''],
              Tag ''td'' [(''class'', ''desc'')] [NavigableString '' '']]) = ''time''
   \<and> py_strip (text_of (Tag ''td'' [(''class'', ''desc'')] [NavigableString '' ''])) = ''''
   \<and> JNull \<noteq> JStr ''''
   \<and> row_caption (Tag ''tr'' []
             [Tag ''td'' [(''class'', ''caption'')] [NavigableString ''Type:''],
              Tag ''td'' [(''class'', ''desc'')]
                [Tag ''a'' [(''href'', ''/asndb/type/C172'')] [NavigableString ''Cessna 172''],
                 NavigableString '' (C172)'']]) = ''type''
   \<and> py_strip (text_of (Tag ''td'' [(''class'', ''desc'')]
                [Tag ''a'' [(''href'', ''/asndb/type/C172'')] [NavigableString ''Cessna 172''],
                 NavigableString '' (C172)''])) = ''Cessna 172 (C172)''"
  by (simp add: demo_detail row_caption_def row_cells_def soup_eval string_eval)

text \<open>The amended C4 at the same page, for a label that is there and one that is not.\<close>

theorem detail_table_fields_witness:
  "map_of [(''url'', JStr ''https://aviation-safety.net/wikibase/1''),
           (''date'', JStr ''12 JAN 2010''), (''time'', JNull), (''type'', JStr ''Cessna 172'')]
          ''date''
     = Some (cell_value detail_soup ''date''
               (Tag ''td'' [(''class'', ''desc'')] [NavigableString '' 12 JAN 2010 '']))
   \<and> cell_value detail_soup ''date''
        (Tag ''td'' [(''class'', ''desc'')] [NavigableString '' 12 JAN 2010 ''])
     = JStr ''12 JAN 2010''
   \<and> map_of [(''url'', JStr ''https://aviation-safety.net/wikibase/1''),
           (''date'', JStr ''12 JAN 2010''), (''time'', JNull), (''type'', JStr ''Cessna 172'')]
          ''msn'' = None
   \<and> known_field ''aircraft type'' \<noteq> Some ''type''
   \<and> known_field ''other fatalities'' \<noteq> Some ''fatalities''
   \<and> known_field ''aircraft type'' = None
   \<and> known_field ''other fatalities'' = None
   \<and> known_field ''date of registration'' = Some ''date''"
proof -
  define u where "u = ''https://aviation-safety.net/wikibase/1''"
  define r where "r = [(''url'', JStr u), (''date'', JStr ''12 JAN 2010''), (''time'', JNull),
             (''type'', JStr ''Cessna 172'')]"
  define table where "table = Tag ''table'' []
          [Tag ''tr'' []
             [Tag ''td'' [(''class'', ''caption'')] [NavigableString ''Date:''],
              Tag ''td'' [(''class'', ''desc'')] [NavigableString '' 12 JAN 2010 '']],
           Tag ''tr'' []
             [Tag ''td'' [(''class'', ''caption'')] [NavigableString ''Time:''],
              Tag ''td'' [(''class'', ''desc'')] [NavigableString '' '']],
           Tag ''tr'' []
             [Tag ''td'' [(''class'', ''caption'')] [NavigableString ''Type:''],
              Tag ''td'' [(''class'', ''desc'')]
                [Tag ''a'' [(''href'', ''/asndb/type/C172'')] [NavigableString ''Cessna 172''],
                 NavigableString '' (C172)'']]]"
  have p: "parse_accident_detail demo_lib ''DETAIL'' u = Some r"
    by (simp add: demo_detail r_def)
  have t: "find_first (is_tag ''table'') (soup_of demo_lib ''DETAIL'') = Some table"
    by (simp add: demo_table table_def)
  have s: "soup_of demo_lib ''DETAIL'' = detail_soup" by (simp add: demo_lib_def)
  have f: "''date'' \<in> set table_fields" "''msn'' \<in> set table_fields"
    by (simp_all add: table_fields_def label_rules_def)
  have kf: "known_field ''date'' = Some ''date''" "known_field ''time'' = Some ''time''"
    "known_field ''type'' = Some ''type''" "known_field ''aircraft type'' = None"
    "known_field ''other fatalities'' = None" "known_field ''date of registration'' = Some ''date''"
    by (simp_all add: known_field_def label_rules_def)
  have caps: "map (\<lambda>row. (length (row_cells row), row_caption row)) (find_all (is_tag ''tr'') table)
     = [(2, ''date''), (2, ''time''), (2, ''type'')]"
    by (simp add: table_def row_caption_def row_cells_def soup_eval string_eval)
  have rows: "find_all (is_tag ''tr'') table
     = [Tag ''tr'' []
             [Tag ''td'' [(''class'', ''caption'')] [NavigableString ''Date:''],
              Tag ''td'' [(''class'', ''desc'')] [NavigableString '' 12 JAN 2010 '']],
           Tag ''tr'' []
             [Tag ''td'' [(''class'', ''caption'')] [NavigableString ''Time:''],
              Tag ''td'' [(''class'', ''desc'')] [NavigableString '' '']],
           Tag ''tr'' []
             [Tag ''td'' [(''class'', ''caption'')] [NavigableString ''Type:''],
              Tag ''td'' [(''class'', ''desc'')]
                [Tag ''a'' [(''href'', ''/asndb/type/C172'')] [NavigableString ''Cessna 172''],
                 NavigableString '' (C172)'']]]"
    by (simp add: table_def soup_eval)
  have fr: "field_rows table ''date''
      = [Tag ''tr'' []
             [Tag ''td'' [(''class'', ''caption'')] [NavigableString ''Date:''],
              Tag ''td'' [(''class'', ''desc'')] [NavigableString '' 12 JAN 2010 '']]]"
    "field_rows table ''msn'' = []"
    using caps unfolding rows field_rows_def fills_field_def by (simp_all add: kf)
  have c: "row_cells (Tag ''tr'' []
             [Tag ''td'' [(''class'', ''caption'')] [NavigableString ''Date:''],
              Tag ''td'' [(''class'', ''desc'')] [NavigableString '' 12 JAN 2010 '']]) ! Suc 0
       = Tag ''td'' [(''class'', ''desc'')] [NavigableString '' 12 JAN 2010 '']"
    by (simp add: row_cells_def soup_eval)
  have v: "cell_value detail_soup ''date''
        (Tag ''td'' [(''class'', ''desc'')] [NavigableString '' 12 JAN 2010 ''])
     = JStr ''12 JAN 2010''"
    by (simp add: cell_value_simps string_eval)
  from detail_table_fields [of demo_lib "''DETAIL''" u r table "''date''"] p t f
  have 1: "map_of r ''date''
     = Some (cell_value detail_soup ''date''
               (Tag ''td'' [(''class'', ''desc'')] [NavigableString '' 12 JAN 2010 '']))"
    by (simp add: fr s c)
  from detail_table_fields [of demo_lib "''DETAIL''" u r table "''msn''"] p t f
  have 2: "map_of r ''msn'' = None"
    by (simp add: fr)
  have "py_in ''aircraft'' ''aircraft type''" "py_in ''other'' ''other fatalities''"
    by simp_all
  with detail_table_fields [of demo_lib "''DETAIL''" u r table "''date''" "''aircraft type''"]
    detail_table_fields [of demo_lib "''DETAIL''" u r table "''date''" "''other fatalities''"]
  have 3: "known_field ''aircraft type'' \<noteq> Some ''type''"
    "known_field ''other fatalities'' \<noteq> Some ''fatalities''"
    by blast+
  from 1 2 3 v kf show ?thesis
    unfolding r_def u_def by simp
qed

text \<open>C10 at the detail page of the site defined above.\<close>

theorem detail_url_kept_witness:
  "map_of [(''url'', JStr ''https://aviation-safety.net/wikibase/1''),
           (''date'', JStr ''12 JAN 2010''), (''time'', JNull), (''type'', JStr ''Cessna 172'')]
          ''url''
     = Some (JStr ''https://aviation-safety.net/wikibase/1'')
   \<and> source1_id (JObj [(''url'', JStr ''https://aviation-safety.net/wikibase/1''),
           (''date'', JStr ''12 JAN 2010''), (''time'', JNull), (''type'', JStr ''Cessna 172'')])
     = Inr (JStr ''1'')"
  using detail_url_kept [of demo_lib "''DETAIL''" "''https://aviation-safety.net/wikibase/1''"
      "[(''url'', JStr ''https://aviation-safety.net/wikibase/1''),
           (''date'', JStr ''12 JAN 2010''), (''time'', JNull), (''type'', JStr ''Cessna 172'')]"]
  by (simp add: demo_detail split_on_def)





end
